theory Spec2Isabelle
  imports Complex_Main "HOL-Library.AList"
begin

text \<open>
  A model of the chat worker with its turn-based game: the rate limiter actor, the
  string helper behind the identity claim, the progress logic of the AI host, and
  the room coordinator with its session registry, confirmation handshake, turn
  rotation, timers and snapshot. The definitions come first, in the order of the
  source; the properties follow.
\<close>

section \<open>Rate limiter actor (class RateLimiter of the chat worker)\<close>

text \<open>
  The actor holds one scalar, \<open>nextAllowedTime\<close>, in seconds. \<open>fetch\<close> reads the
  clock as \<open>Date.now() / 1000\<close>; the clock is passed in as the millisecond count the
  runtime returns. Times are real numbers.
\<close>

record RateLimiter =
  nextAllowedTime :: real

datatype http_method = GET | POST

definition RateLimiter_constructor :: RateLimiter where
  "RateLimiter_constructor = \<lparr>nextAllowedTime = 0\<rparr>"

text \<open>\<open>RateLimiter.fetch\<close>: the new actor state and the cooldown written to the response.\<close>

definition RateLimiter_fetch :: "http_method \<Rightarrow> int \<Rightarrow> RateLimiter \<Rightarrow> RateLimiter \<times> real" where
  "RateLimiter_fetch method nowMs rl =
     (let now = real_of_int nowMs / 1000;
          t1 = max now (nextAllowedTime rl);
          t2 = (if method = POST then t1 + 1 else t1);
          cooldown = max 0 (t2 - now - 30)
      in (rl\<lparr>nextAllowedTime := t2\<rparr>, cooldown))"

text \<open>A sequence of calls on the same key, each with its method and the clock it reads.\<close>

fun RateLimiter_calls :: "(http_method \<times> int) list \<Rightarrow> RateLimiter \<Rightarrow> RateLimiter" where
  "RateLimiter_calls [] rl = rl"
| "RateLimiter_calls ((m, nowMs) # cs) rl = RateLimiter_calls cs (fst (RateLimiter_fetch m nowMs rl))"

section \<open>String helper \<open>safeString\<close> and the identity claim\<close>

text \<open>
  A value of the parsed JSON message, as far as \<open>safeString\<close> and \<open>||\<close> can tell
  values apart: a string; a falsy non-string (\<open>undefined\<close>, \<open>null\<close>, \<open>false\<close>,
  \<open>0\<close>); a truthy non-string, carried with the text \<open>String(value)\<close> yields.
  A JavaScript string is a list of code units and \<open>.length\<close> counts them; \<open>char list\<close>
  stands for that list.
\<close>

datatype jsval = JStr string | JFalsy | JTruthy string

definition truthy :: "jsval \<Rightarrow> bool" where
  "truthy v = (case v of JStr s \<Rightarrow> s \<noteq> [] | JFalsy \<Rightarrow> False | JTruthy _ \<Rightarrow> True)"

text \<open>\<open>a || b\<close> on such values.\<close>

definition js_or :: "jsval \<Rightarrow> jsval \<Rightarrow> jsval" where
  "js_or a b = (if truthy a then a else b)"

text \<open>
  \<open>safeString(value, maxLength, defaultValue = '')\<close>: a non-string is converted with
  \<open>String(value || defaultValue)\<close>, then the text is cut to \<open>maxLength\<close> code units
  when it is longer.
\<close>

definition safeString :: "jsval \<Rightarrow> nat \<Rightarrow> string" where
  "safeString v maxLength =
     (let s = (case v of JStr s \<Rightarrow> s | JFalsy \<Rightarrow> [] | JTruthy r \<Rightarrow> r)
      in if length s > maxLength then take maxLength s else s)"

text \<open>
  The user name \<open>ChatRoom.handleUserSetup\<close> computes from the identity claim
  \<open>data.name\<close>.
\<close>

definition userName_of :: "jsval \<Rightarrow> string" where
  "userName_of dataName = safeString (js_or dataName (JStr ''anonymous'')) 32"

section \<open>AI host: progress of a session (class AIHost)\<close>

text \<open>
  The three answers the validated response can carry; the third one is the answer
  "unrelated", which \<open>validateResponse\<close> also uses as its default.
\<close>

datatype answer = Yes | No | Unrelated

text \<open>The response of the language model after \<open>JSON.parse\<close>, before validation.
  A field that is not a number (or is NaN) is \<open>None\<close>.\<close>

record parsed_response =
  p_answer :: "answer option"
  p_score :: "real option"
  p_progress :: "real option"
  p_hint :: bool

record ai_response =
  r_answer :: answer
  r_score :: int
  r_progress :: int
  r_hint :: bool

text \<open>\<open>LLMClient.validateResponse\<close> (answer, score, progress and the presence of a hint;
  \<open>Math.round x\<close> is \<open>\<lfloor>x + 1/2\<rfloor>\<close>).\<close>

definition validateResponse :: "parsed_response \<Rightarrow> ai_response" where
  "validateResponse parsed =
     \<lparr>r_answer = (case p_answer parsed of Some a \<Rightarrow> a | None \<Rightarrow> Unrelated),
      r_score = (case p_score parsed of
                   Some x \<Rightarrow> if x \<ge> 1 \<and> x \<le> 10 then \<lfloor>x + 1/2\<rfloor> else 1
                 | None \<Rightarrow> 1),
      r_progress = (case p_progress parsed of
                   Some x \<Rightarrow> if x \<ge> 0 \<and> x \<le> 100 then \<lfloor>x + 1/2\<rfloor> else 0
                 | None \<Rightarrow> 0),
      r_hint = p_hint parsed\<rparr>"

text \<open>The numbers of the configuration that \<open>applyGameLogic\<close> reads.\<close>

record ai_config =
  repetitionPenalty :: int
  creativityBonus :: int
  keywordMatchBonus :: int
  directQuestionBonus :: int
  wrongDirectionPenalty :: int
  autoHintThreshold :: nat
  hintFrequency :: nat
  hint_trigger :: int

definition DEFAULT_AI_CONFIG :: ai_config where
  "DEFAULT_AI_CONFIG =
     \<lparr>repetitionPenalty = -1, creativityBonus = 2, keywordMatchBonus = 10,
      directQuestionBonus = 15, wrongDirectionPenalty = -5,
      autoHintThreshold = 20, hintFrequency = 5, hint_trigger = 70\<rparr>"

text \<open>The session record of \<open>createGameSession\<close> (the fields the game logic reads).\<close>

record game_session =
  questionCount :: nat
  totalScore :: int
  progress :: int
  hintsGiven :: nat
  isActive :: bool

definition createGameSession :: game_session where
  "createGameSession =
     \<lparr>questionCount = 0, totalScore = 0, progress = 0, hintsGiven = 0, isActive = True\<rparr>"

text \<open>What the string tests of \<open>applyGameLogic\<close> found in the question:
  \<open>checkDuplicateQuestion\<close>, \<open>isCreativeQuestion\<close>, \<open>hasKeywordMatch\<close> and
  \<open>isDirectQuestion\<close>; and whether \<open>generateAutoHint\<close> has a non-empty text to give.\<close>

record question_features =
  isDuplicate :: bool
  isCreative :: bool
  keywordMatch :: bool
  isDirect :: bool
  autoHintText :: bool

definition smoothProgress :: "int \<Rightarrow> int \<Rightarrow> int" where
  "smoothProgress previousProgress newProgress =
     (let maxChange = 15;
          minChange = -10;
          change = newProgress - previousProgress;
          change = max minChange (min maxChange change)
      in max 0 (min 100 (previousProgress + change)))"

definition shouldAutoHint :: "ai_config \<Rightarrow> game_session \<Rightarrow> bool" where
  "shouldAutoHint cfg sess =
     (if questionCount sess \<ge> autoHintThreshold cfg then True
      else if questionCount sess > 0 \<and> questionCount sess mod hintFrequency cfg = 0
              \<and> hintsGiven sess < 3 then True
      else False)"

definition applyGameLogic ::
  "ai_config \<Rightarrow> game_session \<Rightarrow> ai_response \<Rightarrow> question_features \<Rightarrow> ai_response" where
  "applyGameLogic cfg sess response q =
     (let adjusted = response;
          adjusted = (if isDuplicate q
                      then adjusted\<lparr>r_score := max 1 (r_score adjusted + repetitionPenalty cfg)\<rparr>
                      else adjusted);
          adjusted = (if isCreative q
                      then adjusted\<lparr>r_score := min 10 (r_score adjusted + creativityBonus cfg)\<rparr>
                      else adjusted);
          adjusted = (if keywordMatch q
                      then adjusted\<lparr>r_progress := min 100 (r_progress adjusted + keywordMatchBonus cfg)\<rparr>
                      else adjusted);
          adjusted = (if isDirect q
                      then adjusted\<lparr>r_progress := min 100 (r_progress adjusted + directQuestionBonus cfg)\<rparr>
                      else adjusted);
          adjusted = (if r_answer adjusted = Unrelated \<and> r_score adjusted > 6
                      then adjusted\<lparr>r_progress := max 0 (r_progress adjusted + wrongDirectionPenalty cfg)\<rparr>
                      else adjusted);
          previousProgress = progress sess;
          adjusted = adjusted\<lparr>r_progress := smoothProgress previousProgress (r_progress adjusted)\<rparr>;
          adjusted = (if shouldAutoHint cfg sess
                      then (if \<not> r_hint adjusted \<and> r_progress adjusted > hint_trigger cfg
                            then adjusted\<lparr>r_hint := autoHintText q\<rparr> else adjusted)
                      else adjusted)
      in adjusted)"

definition createFallbackResponse :: "game_session \<Rightarrow> ai_response" where
  "createFallbackResponse sess =
     \<lparr>r_answer = Unrelated, r_score = 3, r_progress = max 0 (progress sess - 5), r_hint = False\<rparr>"

text \<open>
  \<open>processAIResponse\<close>: the language-model call yields a parsed response, which is
  validated and adjusted; or something in the \<open>try\<close> block throws (\<open>None\<close>), and
  the fallback response is used.
\<close>

definition processAIResponse ::
  "ai_config \<Rightarrow> game_session \<Rightarrow> parsed_response option \<Rightarrow> question_features \<Rightarrow> ai_response" where
  "processAIResponse cfg sess llm q =
     (case llm of
        Some parsed \<Rightarrow> applyGameLogic cfg sess (validateResponse parsed) q
      | None \<Rightarrow> createFallbackResponse sess)"

definition updateGameState :: "game_session \<Rightarrow> ai_response \<Rightarrow> game_session" where
  "updateGameState sess response =
     sess\<lparr>questionCount := questionCount sess + 1,
          totalScore := totalScore sess + r_score response,
          progress := r_progress response,
          hintsGiven := (if r_hint response then hintsGiven sess + 1 else hintsGiven sess)\<rparr>"

text \<open>One processed question of \<open>processQuestion\<close> on an active session: the response
  sent to the room and the session afterwards.\<close>

definition processQuestion ::
  "ai_config \<Rightarrow> game_session \<Rightarrow> parsed_response option \<times> question_features
     \<Rightarrow> ai_response \<times> game_session" where
  "processQuestion cfg sess x =
     (let response = processAIResponse cfg sess (fst x) (snd x)
      in (response, updateGameState sess response))"

fun processQuestions ::
  "ai_config \<Rightarrow> game_session \<Rightarrow> (parsed_response option \<times> question_features) list \<Rightarrow> game_session" where
  "processQuestions cfg sess [] = sess"
| "processQuestions cfg sess (x # xs) = processQuestions cfg (snd (processQuestion cfg sess x)) xs"

section \<open>The chat room coordinator (class ChatRoom)\<close>

subsection \<open>Data\<close>

text \<open>A WebSocket handle; the runtime hands out a fresh one for every connection.\<close>

type_synonym ws = nat

text \<open>A puzzle object as \<open>PuzzleManager.getPuzzleById\<close> returns it.\<close>

record puzzle =
  puzzle_id :: string
  puzzle_title :: string
  puzzle_surface :: string

text \<open>A value of the \<open>userScores\<close> map.\<close>

record user_score =
  us_totalScore :: int
  us_questionCount :: nat

text \<open>\<open>messageData\<close> of \<open>handleChatMessage\<close>, which is also the record persisted
  under the timestamp key.\<close>

record chat =
  c_name :: string
  c_message :: string
  c_timestamp :: int
  c_turtleSoupMessage :: bool
  c_aiHostQuestion :: bool

text \<open>
  The game fields of the coordinator that \<open>saveGameState\<close> writes and
  \<open>restoreGameState\<close> reads. A JavaScript \<open>Map\<close> is an association list in
  insertion order; \<open>null\<close> is \<open>None\<close>.
\<close>

record game_state =
  turtleSoupActive :: bool
  turtleSoupParticipants :: "string list"
  turtleSoupInitiator :: "string option"
  currentTurnIndex :: int
  currentPuzzle :: "puzzle option"
  aiHostActive :: bool
  aiHostInitiator :: "string option"
  aiHostParticipants :: "string list"
  userScores :: "(string \<times> user_score) list"

text \<open>The object \<open>saveGameState\<close> serialises: the game fields and \<open>Date.now()\<close>.
  \<open>JSON.stringify\<close> followed by \<open>JSON.parse\<close> gives back a value of these types
  unchanged, so the stored text is represented by the record itself.\<close>

record snapshot =
  snap_game :: game_state
  snap_timestamp :: int

text \<open>The result of \<open>generateAIResponse\<close>: which of the four canned answers was
  drawn, the score and the quality label that go into the formatted text.\<close>

datatype quality = Fair | Good | VeryGood | MoreDetail

record local_response =
  la_answer :: nat
  la_score :: int
  la_quality :: quality

text \<open>The texts of the error notices.\<close>

datatype notice =
    RateLimited | InvalidFormat | InternalError | NameTooLong | MessageTooLong
  | GameAlreadyActive | RequestTimedOut | OnlyInitiatorSelects | PuzzleLoadFailed
  | AIStartFailed | AIStartError | AIAlreadyActive | TurtleSoupInProgress
  | NotInAIMode | OnlyInitiatorEnds | AIQuestionFailed | AIQuestionError

text \<open>The messages the coordinator sends to clients.\<close>

datatype msg =
    Joined string
  | Quit string
  | Ready
  | Error notice
  | Chat chat
  | StoredGameState snapshot
  | HostReply local_response int
  | TurnChange int "string option" "(string \<times> user_score) list option"
  | Request string "string list"
  | Confirm string bool string
  | Start string "string list"
  | End
  | PuzzleStart string "string list" puzzle
  | GameStateSync bool "string list" "string option" int bool "string option" "string list"
      "puzzle option"
  | AIHostStart string "string list"
  | AIHostEnd
  | AIGameSolved
  | AIReply string string

text \<open>
  A session of the registry. \<open>name\<close> is unset until the identity claim;
  \<open>blockedMessages\<close> is the queue of messages held back until then. (The \<open>quit\<close>
  flag is only ever set on a session in the same step that removes it from the
  registry, so the registry never holds a session with the flag set.)
\<close>

record session =
  name :: "string option"
  blockedMessages :: "msg list"

text \<open>\<open>if (session.name)\<close>: the name is set and not the empty string.\<close>

definition named :: "session \<Rightarrow> bool" where
  "named s = (case name s of None \<Rightarrow> False | Some n \<Rightarrow> n \<noteq> [])"

text \<open>A confirmation ticket, a value of the \<open>pendingConfirmations\<close> map. The set
  \<open>confirmedUsers\<close> is a list without repetitions, in insertion order.\<close>

record ticket =
  confirmedUsers :: "string list"
  originalParticipants :: "string list"

text \<open>The callbacks \<open>setTimeout\<close> has been given and that have not run yet.\<close>

datatype timer =
    RequestTimeout string
  | AIResponseTimer local_response
  | TurnChangeTimer
  | AITurnChangeTimer

text \<open>What the coordinator does to the outside, in the order it does it: a message
  sent on a socket, a socket closed, a call of \<open>broadcast\<close>, a snapshot written by
  \<open>saveGameState\<close>, a chat record written under its timestamp key.\<close>

datatype effect =
    Send ws msg
  | Close ws
  | Broadcast msg
  | SaveGameState snapshot
  | StoragePut int chat

text \<open>
  The coordinator: the session registry (a \<open>Map\<close>, in insertion order), the game
  fields, the tickets, whether an \<open>AIHost\<close> instance exists; then the storage (the
  snapshot key and the message log), the pending timers, the next socket handle, the
  sockets on which \<open>send\<close> throws, and the effects so far.
\<close>

record room =
  sessions :: "(ws \<times> session) list"
  lastTimestamp :: int
  game :: game_state
  pendingConfirmations :: "(string \<times> ticket) list"
  aiHost :: bool
  storedGameState :: "snapshot option"
  storedMessages :: "(int \<times> chat) list"
  timers :: "timer list"
  nextSocket :: ws
  broken :: "ws list"
  effects :: "effect list"

definition defaultGameState :: game_state where
  "defaultGameState =
     \<lparr>turtleSoupActive = False, turtleSoupParticipants = [], turtleSoupInitiator = None,
      currentTurnIndex = 0, currentPuzzle = None, aiHostActive = False,
      aiHostInitiator = None, aiHostParticipants = [], userScores = []\<rparr>"


text \<open>The coordinator after its constructor and the first \<open>initializeGameStates\<close> on
  an empty storage.\<close>

definition newRoom :: room where
  "newRoom =
     \<lparr>sessions = [], lastTimestamp = 0, game = defaultGameState, pendingConfirmations = [],
      aiHost = False, storedGameState = None, storedMessages = [], timers = [],
      nextSocket = 0, broken = [], effects = []\<rparr>"

subsection \<open>Snapshot writer and reader\<close>

text \<open>\<open>saveGameState\<close>, at clock \<open>now\<close>.\<close>

definition saveGameState :: "int \<Rightarrow> room \<Rightarrow> room" where
  "saveGameState now r =
     (let gameState = \<lparr>snap_game = game r, snap_timestamp = now\<rparr>
      in r\<lparr>storedGameState := Some gameState,
           effects := effects r @ [SaveGameState gameState]\<rparr>)"




subsection \<open>Sending and broadcasting\<close>

text \<open>\<open>webSocket.send\<close> throws on the sockets listed in \<open>broken\<close>; on any other
  socket the message goes out.\<close>

definition sendOn :: "ws \<Rightarrow> msg \<Rightarrow> room \<Rightarrow> room" where
  "sendOn w m r = r\<lparr>effects := effects r @ [Send w m]\<rparr>"

text \<open>\<open>sendError\<close> catches the exception of a failed send.\<close>

definition sendError :: "ws \<Rightarrow> notice \<Rightarrow> room \<Rightarrow> room" where
  "sendError w n r = (if w \<in> set (broken r) then r else sendOn w (Error n) r)"

text \<open>\<open>webSocket.close\<close>: a later send on the socket throws.\<close>

definition closeSocket :: "ws \<Rightarrow> room \<Rightarrow> room" where
  "closeSocket w r = r\<lparr>broken := w # broken r, effects := effects r @ [Close w]\<rparr>"

text \<open>A registered session whose socket throws: \<open>broadcast\<close> removes it.\<close>

definition dead :: "room \<Rightarrow> ws \<times> session \<Rightarrow> bool" where
  "dead r e = (named (snd e) \<and> fst e \<in> set (broken r))"

text \<open>
  The loop of \<open>broadcast\<close> over the registry: a session with a name is sent the
  message, or, when the send throws, is removed and collected in \<open>quitters\<close>; a
  session without a name has the message pushed on its \<open>blockedMessages\<close>.
\<close>

definition broadcast_pass :: "msg \<Rightarrow> room \<Rightarrow> room \<times> session list" where
  "broadcast_pass m r =
     (let quitters = map snd (filter (dead r) (sessions r));
          kept = filter (\<lambda>e. \<not> dead r e) (sessions r);
          sends = map (\<lambda>e. Send (fst e) m) (filter (\<lambda>e. named (snd e)) kept);
          queued = map (\<lambda>e. if named (snd e) then e
                             else (fst e, (snd e)\<lparr>blockedMessages := blockedMessages (snd e) @ [m]\<rparr>))
                     kept
      in (r\<lparr>sessions := queued, effects := effects r @ [Broadcast m] @ sends\<rparr>, quitters))"

text \<open>The names \<open>quitters.forEach\<close> announces.\<close>

definition quit_notices :: "session list \<Rightarrow> msg list" where
  "quit_notices quitters = map Quit (List.map_filter name (filter named quitters))"

text \<open>
  \<open>broadcast\<close> calls itself for every quitter, after its loop. The calls still to be
  made are kept as a list of messages: the announcements of the quitters of a call are
  made before the calls that were pending when it started.
\<close>

function broadcast_all :: "msg list \<Rightarrow> room \<Rightarrow> room" where
  "broadcast_all [] r = r"
| "broadcast_all (m # ms) r =
     broadcast_all (quit_notices (snd (broadcast_pass m r)) @ ms) (fst (broadcast_pass m r))"
  by pat_completeness auto
termination
proof (relation "measures [\<lambda>(ms, r). length (filter (dead r) (sessions r)), \<lambda>(ms, r). length ms]")
  show "wf (measures [\<lambda>(ms, r). length (filter (dead r) (sessions r)), \<lambda>(ms, r). length ms])"
    by simp
next
  fix m :: msg and ms :: "msg list" and r :: room
  let ?r' = "fst (broadcast_pass m r)"
  have same: "dead ?r' (if named (snd e) then e
                 else (fst e, (snd e)\<lparr>blockedMessages := blockedMessages (snd e) @ [m]\<rparr>)) = dead r e"
    for e
    by (simp add: dead_def broadcast_pass_def Let_def named_def)
  have none: "filter (dead ?r') (sessions ?r') = []"
    by (simp add: broadcast_pass_def Let_def filter_map o_def same [unfolded broadcast_pass_def Let_def, simplified])
  have quiet: "quit_notices (snd (broadcast_pass m r)) = []" if "filter (dead r) (sessions r) = []"
    using that by (simp add: broadcast_pass_def Let_def quit_notices_def List.map_filter_simps)
  show "((quit_notices (snd (broadcast_pass m r)) @ ms, fst (broadcast_pass m r)), m # ms, r)
          \<in> measures [\<lambda>(ms, r). length (filter (dead r) (sessions r)), \<lambda>(ms, r). length ms]"
  proof (cases "filter (dead r) (sessions r) = []")
    case True
    then show ?thesis using none quiet by simp
  next
    case False
    then show ?thesis using none by simp
  qed
qed

text \<open>\<open>broadcast(message)\<close>.\<close>

definition broadcast :: "msg \<Rightarrow> room \<Rightarrow> room" where
  "broadcast m r = broadcast_all [m] r"

subsection \<open>Inbound messages and what the handlers read from outside\<close>

text \<open>
  The handler table of \<open>handleSpecialMessages\<close> runs the handler of the first flag
  that is set in the message; a special message is that flag with the fields its
  handler reads (\<open>initiator\<close>, \<open>user\<close>, \<open>confirmed\<close>, \<open>turnIndex\<close>,
  \<open>nextPlayer\<close>).
\<close>

datatype special =
    TurtleSoupRequest string
  | TurtleSoupConfirm string string bool
  | TurtleSoupTurnChange int "string option"
  | TurtleSoupEnd
  | TurtleSoupPuzzleSelected string
  | AIHostRequest
  | AIHostEndRequest

text \<open>
  A parsed message. The identity claim \<open>name\<close> is a JSON string or is absent; the chat
  text is any value \<open>safeString\<close> accepts; \<open>turtleSoupMessage\<close> and
  \<open>aiHostQuestion\<close> are read through \<open>!!\<close>.
\<close>

record data =
  d_name :: "string option"
  d_requestGameState :: bool
  d_special :: "special option"
  d_message :: jsval
  d_turtleSoupMessage :: bool
  d_aiHostQuestion :: bool

datatype inbound = Malformed | Parsed data

text \<open>How a question put to the \<open>AIHost\<close> instance ends in \<open>processAIHostQuestion\<close>:
  \<open>processQuestion\<close> reports a failure, something throws, the response passes
  \<open>checkIfSolved\<close> (with the success flag of \<open>endGame\<close>), or it is an ordinary
  answer.\<close>

datatype ai_outcome = QuestionFailed | QuestionThrows | Solved bool | Answered

text \<open>
  What one event reads from outside the coordinator: the clock, the verdict of the
  rate limiter proxy, the random draw and the two substring tests of
  \<open>generateAIResponse\<close>, the puzzle \<open>loadPuzzle\<close> finds, whether \<open>createAIHost\<close>
  throws, whether \<open>startGame\<close> succeeds, and the outcome of a question.
\<close>

record env =
  dateNow :: int
  limiterAllows :: bool
  randomIndex :: nat
  asksWhy :: bool
  asksWhether :: bool
  loadedPuzzle :: "puzzle option"
  createAIHostThrows :: bool
  startGameSucceeds :: bool
  questionOutcome :: ai_outcome

subsection \<open>Helpers\<close>

text \<open>\<open>xs[i]\<close>: \<open>undefined\<close> outside the range.\<close>

definition at_index :: "'a list \<Rightarrow> int \<Rightarrow> 'a option" where
  "at_index xs i = (if 0 \<le> i \<and> i < int (length xs) then Some (xs ! nat i) else None)"

text \<open>\<open>Array.from(new Set(...))\<close> filled by \<open>add\<close> in list order.\<close>

definition Set_of_list :: "'a list \<Rightarrow> 'a list" where
  "Set_of_list xs = foldl (\<lambda>acc x. if x \<in> set acc then acc else acc @ [x]) [] xs"

text \<open>The names of the sessions that have one, in registry order.\<close>

definition sessionNames :: "room \<Rightarrow> string list" where
  "sessionNames r = List.map_filter name (filter named (map snd (sessions r)))"

definition zeroScore :: user_score where
  "zeroScore = \<lparr>us_totalScore = 0, us_questionCount = 0\<rparr>"

subsection \<open>Turns\<close>

definition updateUserScore :: "string \<Rightarrow> int \<Rightarrow> game_state \<Rightarrow> game_state" where
  "updateUserScore userName score g =
     (let userScore = (case map_of (userScores g) userName of None \<Rightarrow> zeroScore | Some u \<Rightarrow> u)
      in g\<lparr>userScores :=
             AList.update userName
               \<lparr>us_totalScore = us_totalScore userScore + score,
                us_questionCount = us_questionCount userScore + 1\<rparr>
               (userScores g)\<rparr>)"

definition generateAIResponse :: "env \<Rightarrow> string \<Rightarrow> local_response" where
  "generateAIResponse e question =
     (let score = 5;
          quality = Fair;
          sq = (if asksWhy e then (score + 2, VeryGood)
                else if asksWhether e then (score + 1, Good)
                else (score, quality));
          sq = (if length question < 5 then (fst sq - 1, MoreDetail) else sq);
          score = max 1 (min 10 (fst sq))
      in \<lparr>la_answer = randomIndex e mod 4, la_score = score, la_quality = snd sq\<rparr>)"

text \<open>
  \<open>handleTurtleSoupMessage\<close> with \<open>scheduleAIResponse\<close>, which only sets a timer.
  The remainder is taken where \<open>currentPlayer\<close> is the sender, so the index is in
  range, the list is not empty, and \<open>%\<close> is \<open>mod\<close>.
\<close>

definition handleTurtleSoupMessage :: "string \<Rightarrow> chat \<Rightarrow> env \<Rightarrow> room \<Rightarrow> room" where
  "handleTurtleSoupMessage sessionName messageData e r =
     (let currentPlayer = at_index (turtleSoupParticipants (game r)) (currentTurnIndex (game r))
      in if currentPlayer \<noteq> Some sessionName then r
         else
           (let aiResponse = generateAIResponse e (c_message messageData);
                g = updateUserScore sessionName (la_score aiResponse) (game r);
                g = g\<lparr>currentTurnIndex :=
                        (currentTurnIndex g + 1) mod int (length (turtleSoupParticipants g))\<rparr>
            in r\<lparr>game := g, timers := timers r @ [AIResponseTimer aiResponse]\<rparr>))"

text \<open>\<open>endAIHostMode\<close>.\<close>

definition endAIHostMode :: "int \<Rightarrow> room \<Rightarrow> room" where
  "endAIHostMode now r =
     (let r = r\<lparr>game := (game r)\<lparr>aiHostActive := False, aiHostInitiator := None,
                                 aiHostParticipants := []\<rparr>\<rparr>;
          r = saveGameState now r
      in broadcast AIHostEnd r)"

text \<open>\<open>processAIHostQuestion\<close>.\<close>

definition processAIHostQuestion :: "string \<Rightarrow> string \<Rightarrow> env \<Rightarrow> room \<Rightarrow> room" where
  "processAIHostQuestion userId question e r =
     (if \<not> aiHost r then broadcast (Error AIQuestionError) r
      else case questionOutcome e of
             QuestionThrows \<Rightarrow> broadcast (Error AIQuestionError) r
           | QuestionFailed \<Rightarrow> broadcast (Error AIQuestionFailed) r
           | Solved endOk \<Rightarrow>
               endAIHostMode (dateNow e) (if endOk then broadcast AIGameSolved r else r)
           | Answered \<Rightarrow> broadcast (AIReply userId question) r)"

text \<open>\<open>handleTurtleSoupAIMessage\<close>; the delayed callback is a timer.\<close>

definition handleTurtleSoupAIMessage :: "string \<Rightarrow> chat \<Rightarrow> env \<Rightarrow> room \<Rightarrow> room" where
  "handleTurtleSoupAIMessage sessionName messageData e r =
     (let currentPlayer = at_index (turtleSoupParticipants (game r)) (currentTurnIndex (game r))
      in if currentPlayer \<noteq> Some sessionName then r
         else
           (let r = processAIHostQuestion sessionName (c_message messageData) e r;
                g = game r;
                g = g\<lparr>currentTurnIndex :=
                        (currentTurnIndex g + 1) mod int (length (turtleSoupParticipants g))\<rparr>
            in r\<lparr>game := g, timers := timers r @ [AITurnChangeTimer]\<rparr>))"

text \<open>\<open>storage.put(key, messageStr)\<close> for a chat record, under the key made from its
  timestamp.\<close>

definition storagePut :: "int \<Rightarrow> chat \<Rightarrow> room \<Rightarrow> room" where
  "storagePut key c r =
     r\<lparr>storedMessages := AList.update key c (storedMessages r),
       effects := effects r @ [StoragePut key c]\<rparr>"

text \<open>\<open>handleChatMessage\<close> for the session on socket \<open>w\<close>, registered as
  \<open>sessionName\<close>.\<close>

definition handleChatMessage :: "ws \<Rightarrow> string \<Rightarrow> data \<Rightarrow> env \<Rightarrow> room \<Rightarrow> room" where
  "handleChatMessage w sessionName d e r =
     (let message = safeString (d_message d) 256
      in if length message > 256 then sendError w MessageTooLong r
         else
           (let messageData =
                  \<lparr>c_name = sessionName, c_message = message,
                   c_timestamp = max (dateNow e) (lastTimestamp r + 1),
                   c_turtleSoupMessage = d_turtleSoupMessage d,
                   c_aiHostQuestion = d_aiHostQuestion d\<rparr>;
                r = r\<lparr>lastTimestamp := c_timestamp messageData\<rparr>
            in if c_turtleSoupMessage messageData \<and> c_aiHostQuestion messageData
                  \<and> turtleSoupActive (game r) \<and> aiHostActive (game r)
               then handleTurtleSoupAIMessage sessionName messageData e r
               else if aiHostActive (game r) \<and> \<not> c_turtleSoupMessage messageData
               then processAIHostQuestion sessionName message e r
               else
                 (let r = (if c_turtleSoupMessage messageData \<and> turtleSoupActive (game r)
                              \<and> \<not> aiHostActive (game r)
                           then handleTurtleSoupMessage sessionName messageData e r else r);
                      r = broadcast (Chat messageData) r
                  in storagePut (c_timestamp messageData) messageData r)))"

subsection \<open>The confirmation handshake\<close>

text \<open>\<open>handleTurtleSoupRequest\<close> from the session on socket \<open>w\<close>; \<open>initiator\<close> is the
  field of the message.\<close>

definition handleTurtleSoupRequest :: "ws \<Rightarrow> string \<Rightarrow> room \<Rightarrow> room" where
  "handleTurtleSoupRequest w initiator r =
     (if turtleSoupActive (game r) then sendError w GameAlreadyActive r
      else if map_of (pendingConfirmations r) initiator \<noteq> None then r
      else
        (let onlineUsers = Set_of_list (sessionNames r);
             actualParticipants = onlineUsers;
             r = r\<lparr>pendingConfirmations :=
                     AList.update initiator
                       \<lparr>confirmedUsers = [], originalParticipants = actualParticipants\<rparr>
                       (pendingConfirmations r)\<rparr>;
             r = broadcast (Request initiator actualParticipants) r
         in r\<lparr>timers := timers r @ [RequestTimeout initiator]\<rparr>))"

text \<open>\<open>startTurtleSoup\<close>.\<close>

definition startTurtleSoup :: "string \<Rightarrow> string list \<Rightarrow> int \<Rightarrow> room \<Rightarrow> room" where
  "startTurtleSoup initiator participants now r =
     (let g = (game r)\<lparr>turtleSoupActive := True,
                        turtleSoupInitiator := Some initiator,
                        turtleSoupParticipants := participants,
                        currentTurnIndex := 0\<rparr>;
          g = g\<lparr>userScores := foldl (\<lambda>m participant. AList.update participant zeroScore m)
                                 [] participants\<rparr>;
          r = saveGameState now (r\<lparr>game := g\<rparr>)
      in broadcast (Start initiator participants) r)"

text \<open>\<open>handleTurtleSoupConfirmation\<close>; \<open>initiator\<close>, \<open>user\<close> and \<open>confirmed\<close> are
  the fields of the message.\<close>

definition handleTurtleSoupConfirmation :: "string \<Rightarrow> string \<Rightarrow> bool \<Rightarrow> int \<Rightarrow> room \<Rightarrow> room" where
  "handleTurtleSoupConfirmation initiator user confirmed now r =
     (case map_of (pendingConfirmations r) initiator of
        None \<Rightarrow> r
      | Some confirmationData \<Rightarrow>
          if \<not> confirmed
          then broadcast (Confirm initiator False user)
                 (r\<lparr>pendingConfirmations := AList.delete initiator (pendingConfirmations r)\<rparr>)
          else if user \<in> set (confirmedUsers confirmationData) then r
          else
            (let confirmedSet = confirmedUsers confirmationData @ [user];
                 original = originalParticipants confirmationData;
                 r = r\<lparr>pendingConfirmations :=
                         AList.update initiator
                           (confirmationData\<lparr>confirmedUsers := confirmedSet\<rparr>)
                           (pendingConfirmations r)\<rparr>;
                 r = broadcast (Confirm initiator True user) r;
                 requiredConfirmations = filter (\<lambda>user. user \<noteq> initiator) original
             in if length confirmedSet = length requiredConfirmations
                then (let r = startTurtleSoup initiator original now r
                      in r\<lparr>pendingConfirmations :=
                             AList.delete initiator (pendingConfirmations r)\<rparr>)
                else r))"

subsection \<open>Turn override, game end, overlay\<close>

text \<open>\<open>handleTurtleSoupTurnChange\<close>: the initiator sets the index.\<close>

definition handleTurtleSoupTurnChange :: "string \<Rightarrow> int \<Rightarrow> string option \<Rightarrow> room \<Rightarrow> room" where
  "handleTurtleSoupTurnChange sessionName turnIndex nextPlayer r =
     (if \<not> turtleSoupActive (game r) \<or> Some sessionName \<noteq> turtleSoupInitiator (game r) then r
      else broadcast (TurnChange turnIndex nextPlayer None)
             (r\<lparr>game := (game r)\<lparr>currentTurnIndex := turnIndex\<rparr>\<rparr>))"

text \<open>\<open>endTurtleSoup\<close>.\<close>

definition endTurtleSoup :: "int \<Rightarrow> room \<Rightarrow> room" where
  "endTurtleSoup now r =
     (let r = r\<lparr>game := (game r)\<lparr>turtleSoupActive := False, turtleSoupParticipants := [],
                                 turtleSoupInitiator := None, currentTurnIndex := 0,
                                 userScores := []\<rparr>\<rparr>;
          r = (if aiHostActive (game r) then endAIHostMode now r else r);
          r = saveGameState now r
      in broadcast End r)"

definition handleTurtleSoupEnd :: "string \<Rightarrow> int \<Rightarrow> room \<Rightarrow> room" where
  "handleTurtleSoupEnd sessionName now r =
     (if \<not> turtleSoupActive (game r) \<or> Some sessionName \<noteq> turtleSoupInitiator (game r) then r
      else endTurtleSoup now r)"

text \<open>\<open>handleTurtleSoupPuzzleSelected\<close>.\<close>

definition handleTurtleSoupPuzzleSelected :: "ws \<Rightarrow> string \<Rightarrow> string \<Rightarrow> env \<Rightarrow> room \<Rightarrow> room" where
  "handleTurtleSoupPuzzleSelected w sessionName initiator e r =
     (if \<not> turtleSoupActive (game r) \<or> Some sessionName \<noteq> turtleSoupInitiator (game r)
      then sendError w OnlyInitiatorSelects r
      else case loadedPuzzle e of
        None \<Rightarrow> sendError w PuzzleLoadFailed r
      | Some puzzle \<Rightarrow>
          if \<not> aiHost r \<and> createAIHostThrows e then sendError w AIStartError r
          else
            (let r = r\<lparr>aiHost := True\<rparr>
             in if \<not> startGameSucceeds e then sendError w AIStartFailed r
                else
                  (let r = r\<lparr>game := (game r)\<lparr>aiHostActive := True,
                                              aiHostInitiator := Some initiator,
                                              aiHostParticipants := turtleSoupParticipants (game r),
                                              currentPuzzle := Some puzzle\<rparr>\<rparr>;
                       r = saveGameState (dateNow e) r
                   in broadcast (PuzzleStart initiator (turtleSoupParticipants (game r)) puzzle) r)))"

text \<open>\<open>handleAIHostRequest\<close>, the overlay started on its own.\<close>

definition handleAIHostRequest :: "ws \<Rightarrow> string \<Rightarrow> env \<Rightarrow> room \<Rightarrow> room" where
  "handleAIHostRequest w sessionName e r =
     (if aiHostActive (game r) then sendError w AIAlreadyActive r
      else if turtleSoupActive (game r) then sendError w TurtleSoupInProgress r
      else if \<not> aiHost r \<and> createAIHostThrows e then sendError w AIStartError r
      else
        (let r = r\<lparr>aiHost := True\<rparr>
         in if \<not> startGameSucceeds e then sendError w AIStartFailed r
            else
              (let r = r\<lparr>game := (game r)\<lparr>aiHostActive := True,
                                          aiHostInitiator := Some sessionName,
                                          aiHostParticipants := sessionNames r\<rparr>\<rparr>
               in broadcast (AIHostStart sessionName (aiHostParticipants (game r))) r)))"

text \<open>\<open>handleAIHostEnd\<close>.\<close>

definition handleAIHostEnd :: "ws \<Rightarrow> string \<Rightarrow> int \<Rightarrow> room \<Rightarrow> room" where
  "handleAIHostEnd w sessionName now r =
     (if \<not> aiHostActive (game r) then sendError w NotInAIMode r
      else if Some sessionName \<noteq> aiHostInitiator (game r) then sendError w OnlyInitiatorEnds r
      else endAIHostMode now r)"

text \<open>\<open>handleSpecialMessages\<close> once a flag is found.\<close>

definition handleSpecialMessages :: "ws \<Rightarrow> string \<Rightarrow> special \<Rightarrow> env \<Rightarrow> room \<Rightarrow> room" where
  "handleSpecialMessages w sessionName sp e r =
     (case sp of
        TurtleSoupRequest initiator \<Rightarrow> handleTurtleSoupRequest w initiator r
      | TurtleSoupConfirm initiator user confirmed \<Rightarrow>
          handleTurtleSoupConfirmation initiator user confirmed (dateNow e) r
      | TurtleSoupTurnChange turnIndex nextPlayer \<Rightarrow>
          handleTurtleSoupTurnChange sessionName turnIndex nextPlayer r
      | TurtleSoupEnd \<Rightarrow> handleTurtleSoupEnd sessionName (dateNow e) r
      | TurtleSoupPuzzleSelected initiator \<Rightarrow>
          handleTurtleSoupPuzzleSelected w sessionName initiator e r
      | AIHostRequest \<Rightarrow> handleAIHostRequest w sessionName e r
      | AIHostEndRequest \<Rightarrow> handleAIHostEnd w sessionName (dateNow e) r)"

subsection \<open>Timers\<close>

text \<open>The callbacks given to \<open>setTimeout\<close> by \<open>handleTurtleSoupRequest\<close>,
  \<open>scheduleAIResponse\<close> (outer and inner) and \<open>handleTurtleSoupAIMessage\<close>, run at
  clock \<open>now\<close>.\<close>

definition fireTimer :: "timer \<Rightarrow> int \<Rightarrow> room \<Rightarrow> room" where
  "fireTimer t now r =
     (case t of
        RequestTimeout initiator \<Rightarrow>
          if map_of (pendingConfirmations r) initiator \<noteq> None
          then broadcast (Error RequestTimedOut)
                 (r\<lparr>pendingConfirmations := AList.delete initiator (pendingConfirmations r)\<rparr>)
          else r
      | AIResponseTimer aiResponse \<Rightarrow>
          (let r = broadcast (HostReply aiResponse (max now (lastTimestamp r + 1))) r;
               r = r\<lparr>lastTimestamp := max now (lastTimestamp r + 1)\<rparr>
           in r\<lparr>timers := timers r @ [TurnChangeTimer]\<rparr>)
      | TurnChangeTimer \<Rightarrow>
          broadcast (TurnChange (currentTurnIndex (game r))
                       (at_index (turtleSoupParticipants (game r)) (currentTurnIndex (game r)))
                       (Some (userScores (game r)))) r
      | AITurnChangeTimer \<Rightarrow>
          (let r = saveGameState now r
           in broadcast (TurnChange (currentTurnIndex (game r))
                           (at_index (turtleSoupParticipants (game r)) (currentTurnIndex (game r)))
                           None) r))"

subsection \<open>Connections\<close>

text \<open>Everything \<open>storage.list\<close> finds, in key order: the chat records under their
  timestamp keys, which start with a digit, then the snapshot under \<open>gameState\<close>. The
  backlog of \<open>handleSession\<close> is the last hundred values.\<close>

definition storageList :: "room \<Rightarrow> msg list" where
  "storageList r =
     map (\<lambda>kv. Chat (snd kv)) (sort_key fst (storedMessages r))
     @ (case storedGameState r of None \<Rightarrow> [] | Some s \<Rightarrow> [StoredGameState s])"

definition backlog :: "room \<Rightarrow> msg list" where
  "backlog r = (let values = storageList r in drop (length values - 100) values)"

text \<open>\<open>handleSession\<close> on the fresh socket \<open>nextSocket\<close>.\<close>

definition handleSession :: "room \<Rightarrow> room" where
  "handleSession r =
     (let w = nextSocket r;
          session = \<lparr>name = None, blockedMessages = []\<rparr>;
          r = r\<lparr>sessions := AList.update w session (sessions r), nextSocket := w + 1\<rparr>;
          session = session\<lparr>blockedMessages := map Joined (sessionNames r)\<rparr>;
          session = session\<lparr>blockedMessages := blockedMessages session @ backlog r\<rparr>
      in r\<lparr>sessions := AList.update w session (sessions r)\<rparr>)"

text \<open>The identity claim as the value \<open>data.name\<close>.\<close>

definition claim_value :: "string option \<Rightarrow> jsval" where
  "claim_value c = (case c of None \<Rightarrow> JFalsy | Some s \<Rightarrow> JStr s)"

text \<open>
  \<open>handleUserSetup\<close>. The sends to the session's own socket are not guarded: on a
  socket that throws, the handler stops at the first of them, and the \<open>catch\<close> of
  \<open>webSocketMessage\<close> then calls \<open>sendError\<close>, whose send fails as well.
\<close>

definition handleUserSetup :: "ws \<Rightarrow> session \<Rightarrow> data \<Rightarrow> room \<Rightarrow> room" where
  "handleUserSetup w session d r =
     (let userName = userName_of (claim_value (d_name d))
      in if length userName > 32 then closeSocket w (sendError w NameTooLong r)
         else
           (let session = session\<lparr>name := Some userName\<rparr>;
                r = r\<lparr>sessions := AList.update w session (sessions r)\<rparr>
            in if w \<in> set (broken r) \<and> blockedMessages session \<noteq> [] then r
               else
                 (let r = r\<lparr>effects := effects r @ map (Send w) (blockedMessages session)\<rparr>;
                      r = r\<lparr>sessions :=
                              AList.update w (session\<lparr>blockedMessages := []\<rparr>) (sessions r)\<rparr>;
                      r = broadcast (Joined userName) r
                  in if w \<in> set (broken r) then r
                     else
                       (let r = (if d_requestGameState d
                                    \<and> (turtleSoupActive (game r) \<or> aiHostActive (game r))
                                 then sendOn w
                                        (GameStateSync (turtleSoupActive (game r))
                                           (turtleSoupParticipants (game r))
                                           (turtleSoupInitiator (game r))
                                           (currentTurnIndex (game r))
                                           (aiHostActive (game r))
                                           (aiHostInitiator (game r))
                                           (aiHostParticipants (game r))
                                           (currentPuzzle (game r))) r
                                 else r)
                        in sendOn w Ready r))))"

text \<open>\<open>closeOrErrorHandler\<close>.\<close>

definition closeOrErrorHandler :: "ws \<Rightarrow> room \<Rightarrow> room" where
  "closeOrErrorHandler w r =
     (let session = map_of (sessions r) w;
          r = r\<lparr>sessions := AList.delete w (sessions r)\<rparr>
      in case session of
           None \<Rightarrow> r
         | Some s \<Rightarrow> (case name s of
                        None \<Rightarrow> r
                      | Some n \<Rightarrow> if n \<noteq> [] then broadcast (Quit n) r else r))"

text \<open>\<open>webSocketMessage\<close>: the message \<open>msg\<close> has been through \<open>safeJsonParse\<close>.\<close>

definition webSocketMessage :: "ws \<Rightarrow> env \<Rightarrow> inbound \<Rightarrow> room \<Rightarrow> room" where
  "webSocketMessage w e inb r =
     (case map_of (sessions r) w of
        None \<Rightarrow> closeSocket w r
      | Some session \<Rightarrow>
          if \<not> limiterAllows e then sendError w RateLimited r
          else (case inb of
            Malformed \<Rightarrow> sendError w InvalidFormat r
          | Parsed d \<Rightarrow>
              (case name session of
                 None \<Rightarrow> handleUserSetup w session d r
               | Some sessionName \<Rightarrow>
                   if sessionName = [] then handleUserSetup w session d r
                   else (case d_special d of
                           Some sp \<Rightarrow> handleSpecialMessages w sessionName sp e r
                         | None \<Rightarrow> handleChatMessage w sessionName d e r))))"

subsection \<open>Events of one activation of the coordinator\<close>

text \<open>
  The coordinator handles one event at a time: a new connection, a message on a
  socket, the close or error event of a socket, a pending timer that fires (the
  \<open>k\<close>-th of the list, at the given clock). \<open>Breaks\<close> is the environment's move
  after which \<open>send\<close> on the socket throws. Events that name a socket the runtime
  never handed out do nothing.
\<close>

datatype event =
    Connect
  | Message ws env inbound
  | CloseOrError ws
  | Breaks ws
  | TimerFires nat int

definition step :: "event \<Rightarrow> room \<Rightarrow> room" where
  "step ev r =
     (case ev of
        Connect \<Rightarrow> handleSession r
      | Message w e inb \<Rightarrow> if w < nextSocket r then webSocketMessage w e inb r else r
      | CloseOrError w \<Rightarrow> if w < nextSocket r then closeOrErrorHandler w r else r
      | Breaks w \<Rightarrow> if w < nextSocket r then r\<lparr>broken := w # broken r\<rparr> else r
      | TimerFires k now \<Rightarrow>
          if k < length (timers r)
          then fireTimer (timers r ! k) now (r\<lparr>timers := take k (timers r) @ drop (Suc k) (timers r)\<rparr>)
          else r)"

fun run :: "event list \<Rightarrow> room \<Rightarrow> room" where
  "run [] r = r"
| "run (ev # evs) r = run evs (step ev r)"

subsection \<open>Predicates of the statements\<close>


text \<open>
  The shape of the turn fields between events: the turn index is not negative; it is
  below the number of participants while a game is active; without an active game
  the participant list is empty and the index is 0.
\<close>

definition turn_inv :: "room \<Rightarrow> bool" where
  "turn_inv r =
     (0 \<le> currentTurnIndex (game r)
      \<and> (if turtleSoupActive (game r)
         then currentTurnIndex (game r) < int (length (turtleSoupParticipants (game r)))
         else turtleSoupParticipants (game r) = [] \<and> currentTurnIndex (game r) = 0))"

text \<open>Every open ticket holds a non-empty participant list, and the score map has no
  key twice.\<close>

definition store_inv :: "room \<Rightarrow> bool" where
  "store_inv r =
     (list_all (\<lambda>kv. originalParticipants (snd kv) \<noteq> []) (pendingConfirmations r)
      \<and> distinct (map fst (userScores (game r))))"


text \<open>The messages that went out on socket \<open>w\<close>, in order.\<close>

fun sent_on :: "ws \<Rightarrow> effect list \<Rightarrow> msg list" where
  "sent_on w [] = []"
| "sent_on w (Send w' m # effs) = (if w' = w then m # sent_on w effs else sent_on w effs)"
| "sent_on w (eff # effs) = sent_on w effs"

definition received :: "room \<Rightarrow> ws \<Rightarrow> msg list" where
  "received r w = sent_on w (effects r)"



text \<open>
  A step from \<open>r\<close> to \<open>r'\<close> that hands out no socket, adds no session and changes
  no name, and sends only on the sockets in \<open>A\<close> and on sockets of sessions that
  have a name.
\<close>

definition calm :: "ws set \<Rightarrow> room \<Rightarrow> room \<Rightarrow> bool" where
  "calm A r r' =
     (nextSocket r' = nextSocket r
      \<and> (\<forall>(w, s') \<in> set (sessions r'). \<exists>s. (w, s) \<in> set (sessions r) \<and> name s = name s')
      \<and> (distinct (map fst (sessions r)) \<longrightarrow> distinct (map fst (sessions r')))
      \<and> (\<forall>w. w \<in> A \<or> (\<exists>s. (w, s) \<in> set (sessions r) \<and> named s) \<or> received r' w = received r w))"



subsection \<open>A sample room\<close>

text \<open>Inputs for the closed examples: an environment, the three kinds of client
  message, and the events by which alice and bob join and start a game that alice
  requests and bob accepts.\<close>

definition sample_env :: env where
  "sample_env =
     \<lparr>dateNow = 1000, limiterAllows = True, randomIndex = 0, asksWhy = False,
      asksWhether = False, loadedPuzzle = None, createAIHostThrows = False,
      startGameSucceeds = True, questionOutcome = Answered\<rparr>"

definition identity_claim :: "string \<Rightarrow> inbound" where
  "identity_claim n =
     Parsed \<lparr>d_name = Some n, d_requestGameState = False, d_special = None,
             d_message = JFalsy, d_turtleSoupMessage = False, d_aiHostQuestion = False\<rparr>"

definition special_message :: "special \<Rightarrow> inbound" where
  "special_message sp =
     Parsed \<lparr>d_name = None, d_requestGameState = False, d_special = Some sp,
             d_message = JFalsy, d_turtleSoupMessage = False, d_aiHostQuestion = False\<rparr>"

definition turn_text :: "string \<Rightarrow> inbound" where
  "turn_text t =
     Parsed \<lparr>d_name = None, d_requestGameState = False, d_special = None,
             d_message = JStr t, d_turtleSoupMessage = True, d_aiHostQuestion = False\<rparr>"

definition alice_and_bob :: "event list" where
  "alice_and_bob =
     [Connect, Message 0 sample_env (identity_claim ''alice''),
      Connect, Message 1 sample_env (identity_claim ''bob'')]"

definition two_player_game :: "event list" where
  "two_player_game =
     alice_and_bob @
     [Message 0 sample_env (special_message (TurtleSoupRequest ''alice'')),
      Message 1 sample_env (special_message (TurtleSoupConfirm ''alice'' ''bob'' True))]"



definition three_players_bob_accepted :: "event list" where
  "three_players_bob_accepted =
     alice_and_bob @
     [Connect, Message 2 sample_env (identity_claim ''carol''),
      Message 0 sample_env (special_message (TurtleSoupRequest ''alice'')),
      Message 1 sample_env (special_message (TurtleSoupConfirm ''alice'' ''bob'' True))]"


definition bob_question :: chat where
  "bob_question =
     \<lparr>c_name = ''bob'', c_message = ''is it?'', c_timestamp = 1000,
      c_turtleSoupMessage = True, c_aiHostQuestion = False\<rparr>"

definition alice_question :: chat where
  "alice_question =
     \<lparr>c_name = ''alice'', c_message = ''is it?'', c_timestamp = 1000,
      c_turtleSoupMessage = True, c_aiHostQuestion = False\<rparr>"



section \<open>Properties of the progress of an AI session\<close>

lemma smoothProgress_bounds:
  "0 \<le> smoothProgress prev new \<and> smoothProgress prev new \<le> 100"
  by (simp add: smoothProgress_def Let_def)

lemma smoothProgress_step:
  assumes "0 \<le> prev" and "prev \<le> 100"
  shows "prev - 10 \<le> smoothProgress prev new \<and> smoothProgress prev new \<le> prev + 15"
  using assms by (auto simp add: smoothProgress_def Let_def max_def min_def)

lemma applyGameLogic_progress:
  assumes "\<And>new. P (smoothProgress (progress sess) new)"
  shows "P (r_progress (applyGameLogic cfg sess response q))"
  by (cases "isDuplicate q"; cases "isCreative q"; cases "keywordMatch q"; cases "isDirect q";
      cases "shouldAutoHint cfg sess")
     (simp_all add: applyGameLogic_def Let_def assms)

lemma processAIResponse_bounds:
  assumes "0 \<le> progress sess" and "progress sess \<le> 100"
  shows "0 \<le> r_progress (processAIResponse cfg sess llm q)
       \<and> r_progress (processAIResponse cfg sess llm q) \<le> 100
       \<and> progress sess - 10 \<le> r_progress (processAIResponse cfg sess llm q)
       \<and> r_progress (processAIResponse cfg sess llm q) \<le> progress sess + 15"
proof (cases llm)
  case None
  with assms show ?thesis
    by (simp add: processAIResponse_def createFallbackResponse_def)
next
  case (Some parsed)
  have "0 \<le> p \<and> p \<le> 100 \<and> progress sess - 10 \<le> p \<and> p \<le> progress sess + 15"
    if "p = r_progress (applyGameLogic cfg sess (validateResponse parsed) q)" for p
    unfolding that
  proof (rule applyGameLogic_progress)
    fix new
    show "0 \<le> smoothProgress (progress sess) new \<and> smoothProgress (progress sess) new \<le> 100
        \<and> progress sess - 10 \<le> smoothProgress (progress sess) new
        \<and> smoothProgress (progress sess) new \<le> progress sess + 15"
      using smoothProgress_bounds [of "progress sess" new] smoothProgress_step [OF assms, of new]
      by simp
  qed
  then show ?thesis by (simp add: processAIResponse_def Some)
qed

lemma processQuestion_progress:
  "progress (snd (processQuestion cfg sess x)) = r_progress (fst (processQuestion cfg sess x))"
  by (simp add: processQuestion_def updateGameState_def Let_def)

lemma processQuestion_fst:
  "fst (processQuestion cfg sess x) = processAIResponse cfg sess (fst x) (snd x)"
  by (simp add: processQuestion_def Let_def)

lemma processQuestions_range:
  assumes "0 \<le> progress sess" and "progress sess \<le> 100"
  shows "0 \<le> progress (processQuestions cfg sess xs) \<and> progress (processQuestions cfg sess xs) \<le> 100"
  using assms
proof (induction xs arbitrary: sess)
  case Nil
  then show ?case by simp
next
  case (Cons x xs)
  have "0 \<le> progress (snd (processQuestion cfg sess x))
      \<and> progress (snd (processQuestion cfg sess x)) \<le> 100"
    using processAIResponse_bounds [OF Cons.prems, of cfg "fst x" "snd x"]
    by (simp add: processQuestion_progress processQuestion_fst)
  then show ?case using Cons.IH by simp
qed

text \<open>
  C10. Take any AI session as it stands after any number of processed questions since
  \<open>createGameSession\<close>, and process one more question, whatever the language model
  returned for it (any parsed response, or a failure that leads to the fallback
  response). The progress stored in the session afterwards is the progress of the
  response reported to the clients, it is at most 15 above and at most 10 below the
  progress stored before, and it lies between 0 and 100.
\<close>

theorem C10_progress_change_bounded:
  "progress (snd (processQuestion cfg (processQuestions cfg createGameSession xs) x))
     = r_progress (fst (processQuestion cfg (processQuestions cfg createGameSession xs) x))
   \<and> progress (processQuestions cfg createGameSession xs) - 10
       \<le> progress (snd (processQuestion cfg (processQuestions cfg createGameSession xs) x))
   \<and> progress (snd (processQuestion cfg (processQuestions cfg createGameSession xs) x))
       \<le> progress (processQuestions cfg createGameSession xs) + 15
   \<and> 0 \<le> progress (snd (processQuestion cfg (processQuestions cfg createGameSession xs) x))
   \<and> progress (snd (processQuestion cfg (processQuestions cfg createGameSession xs) x)) \<le> 100"
proof -
  let ?s = "processQuestions cfg createGameSession xs"
  have r: "0 \<le> progress ?s \<and> progress ?s \<le> 100"
    by (rule processQuestions_range) (simp_all add: createGameSession_def)
  then have a: "0 \<le> progress ?s" and b: "progress ?s \<le> 100" by simp_all
  show ?thesis
    using processAIResponse_bounds [OF a b, of cfg "fst x" "snd x"]
    by (simp add: processQuestion_progress processQuestion_fst)
qed

section \<open>Properties of the identity claim\<close>



section \<open>Properties of the rate limiter\<close>

lemma RateLimiter_fetch_mono:
  "nextAllowedTime rl \<le> nextAllowedTime (fst (RateLimiter_fetch m nowMs rl))"
  by (auto simp add: RateLimiter_fetch_def Let_def max_def)

lemma RateLimiter_calls_mono:
  "nextAllowedTime rl \<le> nextAllowedTime (RateLimiter_calls cs rl)"
proof (induction cs arbitrary: rl)
  case Nil
  show ?case by simp
next
  case (Cons c cs)
  obtain m nowMs where c: "c = (m, nowMs)" by (cases c)
  have "nextAllowedTime rl \<le> nextAllowedTime (fst (RateLimiter_fetch m nowMs rl))"
    by (rule RateLimiter_fetch_mono)
  also have "\<dots> \<le> nextAllowedTime (RateLimiter_calls cs (fst (RateLimiter_fetch m nowMs rl)))"
    by (rule Cons.IH)
  finally show ?case by (simp add: c)
qed

lemma RateLimiter_calls_append:
  "RateLimiter_calls (cs @ ds) rl = RateLimiter_calls ds (RateLimiter_calls cs rl)"
  by (induction cs arbitrary: rl) auto

text \<open>
  C6. A consume (POST) call first raises \<open>nextAllowedTime\<close> to at least the current
  time, then adds exactly one second, and replies
  \<open>max 0 (nextAllowedTime - now - 30)\<close>; over any sequence of calls (GET or POST,
  whatever clock each one reads), every later value of \<open>nextAllowedTime\<close> is at least
  every earlier one.
\<close>

theorem C6_consume_and_monotone:
  "nextAllowedTime (fst (RateLimiter_fetch POST nowMs rl))
     = max (real_of_int nowMs / 1000) (nextAllowedTime rl) + 1
   \<and> snd (RateLimiter_fetch POST nowMs rl)
     = max 0 (nextAllowedTime (fst (RateLimiter_fetch POST nowMs rl)) - real_of_int nowMs / 1000 - 30)
   \<and> nextAllowedTime (RateLimiter_calls cs rl)
     \<le> nextAllowedTime (RateLimiter_calls (cs @ ds) rl)"
proof -
  have "nextAllowedTime (RateLimiter_calls cs rl)
          \<le> nextAllowedTime (RateLimiter_calls ds (RateLimiter_calls cs rl))"
    by (rule RateLimiter_calls_mono)
  then show ?thesis
    by (simp add: RateLimiter_fetch_def Let_def RateLimiter_calls_append)
qed

section \<open>Properties of the coordinator\<close>

subsection \<open>What a broadcast leaves alone\<close>

lemma broadcast_pass_fields:
  "game (fst (broadcast_pass m r)) = game r"
  "pendingConfirmations (fst (broadcast_pass m r)) = pendingConfirmations r"
  "aiHost (fst (broadcast_pass m r)) = aiHost r"
  "storedGameState (fst (broadcast_pass m r)) = storedGameState r"
  "storedMessages (fst (broadcast_pass m r)) = storedMessages r"
  "timers (fst (broadcast_pass m r)) = timers r"
  "lastTimestamp (fst (broadcast_pass m r)) = lastTimestamp r"
  "nextSocket (fst (broadcast_pass m r)) = nextSocket r"
  "broken (fst (broadcast_pass m r)) = broken r"
  by (simp_all add: broadcast_pass_def Let_def)

lemma broadcast_all_preserves:
  assumes "\<And>m r. f (fst (broadcast_pass m r)) = f r"
  shows "f (broadcast_all ms r) = f r"
  by (induction ms r rule: broadcast_all.induct) (simp_all add: assms)

declare broadcast_all.simps [simp del]

lemma broadcast_all_fields:
  "game (broadcast_all ms r) = game r"
  "pendingConfirmations (broadcast_all ms r) = pendingConfirmations r"
  "aiHost (broadcast_all ms r) = aiHost r"
  "storedGameState (broadcast_all ms r) = storedGameState r"
  "storedMessages (broadcast_all ms r) = storedMessages r"
  "timers (broadcast_all ms r) = timers r"
  "lastTimestamp (broadcast_all ms r) = lastTimestamp r"
  "nextSocket (broadcast_all ms r) = nextSocket r"
  "broken (broadcast_all ms r) = broken r"
  by (simp_all add: broadcast_pass_fields
      broadcast_all_preserves [where f = game]
      broadcast_all_preserves [where f = pendingConfirmations]
      broadcast_all_preserves [where f = aiHost]
      broadcast_all_preserves [where f = storedGameState]
      broadcast_all_preserves [where f = storedMessages]
      broadcast_all_preserves [where f = timers]
      broadcast_all_preserves [where f = lastTimestamp]
      broadcast_all_preserves [where f = nextSocket]
      broadcast_all_preserves [where f = broken])

lemma broadcast_fields [simp]:
  "game (broadcast m r) = game r"
  "pendingConfirmations (broadcast m r) = pendingConfirmations r"
  "aiHost (broadcast m r) = aiHost r"
  "storedGameState (broadcast m r) = storedGameState r"
  "storedMessages (broadcast m r) = storedMessages r"
  "timers (broadcast m r) = timers r"
  "lastTimestamp (broadcast m r) = lastTimestamp r"
  "nextSocket (broadcast m r) = nextSocket r"
  "broken (broadcast m r) = broken r"
  by (simp_all add: broadcast_def broadcast_all_fields)

lemma sendOn_fields [simp]:
  "game (sendOn w m r) = game r"
  "pendingConfirmations (sendOn w m r) = pendingConfirmations r"
  "timers (sendOn w m r) = timers r"
  "sessions (sendOn w m r) = sessions r"
  "nextSocket (sendOn w m r) = nextSocket r"
  "broken (sendOn w m r) = broken r"
  by (simp_all add: sendOn_def)

lemma sendError_fields [simp]:
  "game (sendError w n r) = game r"
  "pendingConfirmations (sendError w n r) = pendingConfirmations r"
  "timers (sendError w n r) = timers r"
  "sessions (sendError w n r) = sessions r"
  "nextSocket (sendError w n r) = nextSocket r"
  "broken (sendError w n r) = broken r"
  by (simp_all add: sendError_def)

lemma closeSocket_fields [simp]:
  "game (closeSocket w r) = game r"
  "pendingConfirmations (closeSocket w r) = pendingConfirmations r"
  "timers (closeSocket w r) = timers r"
  "sessions (closeSocket w r) = sessions r"
  "nextSocket (closeSocket w r) = nextSocket r"
  by (simp_all add: closeSocket_def)

lemma saveGameState_fields [simp]:
  "game (saveGameState now r) = game r"
  "pendingConfirmations (saveGameState now r) = pendingConfirmations r"
  "timers (saveGameState now r) = timers r"
  "sessions (saveGameState now r) = sessions r"
  "nextSocket (saveGameState now r) = nextSocket r"
  "broken (saveGameState now r) = broken r"
  "aiHost (saveGameState now r) = aiHost r"
  "storedGameState (saveGameState now r) = Some \<lparr>snap_game = game r, snap_timestamp = now\<rparr>"
  by (simp_all add: saveGameState_def Let_def)

subsection \<open>Open tickets and the score map\<close>

lemma set_Set_of_list_aux:
  "set (foldl (\<lambda>acc x. if x \<in> set acc then acc else acc @ [x]) acc xs) = set acc \<union> set xs"
  by (induction xs arbitrary: acc) auto

lemma set_Set_of_list [simp]: "set (Set_of_list xs) = set xs"
  by (simp add: Set_of_list_def set_Set_of_list_aux)

lemma Set_of_list_Nil [simp]: "Set_of_list xs = [] \<longleftrightarrow> xs = []"
  using set_Set_of_list [of xs] by (metis set_empty)






lemma store_inv_broadcast [simp]: "store_inv (broadcast m r) = store_inv r"
  by (simp add: store_inv_def)

lemma store_inv_sendError [simp]: "store_inv (sendError w n r) = store_inv r"
  by (simp add: store_inv_def)

lemma store_inv_sendOn [simp]: "store_inv (sendOn w m r) = store_inv r"
  by (simp add: store_inv_def)

lemma store_inv_closeSocket [simp]: "store_inv (closeSocket w r) = store_inv r"
  by (simp add: store_inv_def)

lemma store_inv_saveGameState [simp]: "store_inv (saveGameState now r) = store_inv r"
  by (simp add: store_inv_def)

lemma store_inv_storagePut [simp]: "store_inv (storagePut k c r) = store_inv r"
  by (simp add: store_inv_def storagePut_def)

lemma store_inv_other_fields [simp]:
  "store_inv (r\<lparr>timers := ts\<rparr>) = store_inv r"
  "store_inv (r\<lparr>sessions := ss\<rparr>) = store_inv r"
  "store_inv (r\<lparr>effects := es\<rparr>) = store_inv r"
  "store_inv (r\<lparr>lastTimestamp := t\<rparr>) = store_inv r"
  "store_inv (r\<lparr>storedMessages := sm\<rparr>) = store_inv r"
  "store_inv (r\<lparr>aiHost := b\<rparr>) = store_inv r"
  "store_inv (r\<lparr>broken := bs\<rparr>) = store_inv r"
  "store_inv (r\<lparr>nextSocket := k\<rparr>) = store_inv r"
  by (simp_all add: store_inv_def)





























subsection \<open>The turn index stays in range\<close>



lemma turn_inv_broadcast [simp]: "turn_inv (broadcast m r) = turn_inv r"
  by (simp add: turn_inv_def)

lemma turn_inv_sendError [simp]: "turn_inv (sendError w n r) = turn_inv r"
  by (simp add: turn_inv_def)

lemma turn_inv_sendOn [simp]: "turn_inv (sendOn w m r) = turn_inv r"
  by (simp add: turn_inv_def)

lemma turn_inv_closeSocket [simp]: "turn_inv (closeSocket w r) = turn_inv r"
  by (simp add: turn_inv_def)

lemma turn_inv_saveGameState [simp]: "turn_inv (saveGameState now r) = turn_inv r"
  by (simp add: turn_inv_def)

lemma turn_inv_storagePut [simp]: "turn_inv (storagePut k c r) = turn_inv r"
  by (simp add: turn_inv_def storagePut_def)

lemma turn_inv_other_fields [simp]:
  "turn_inv (r\<lparr>timers := ts\<rparr>) = turn_inv r"
  "turn_inv (r\<lparr>sessions := ss\<rparr>) = turn_inv r"
  "turn_inv (r\<lparr>effects := es\<rparr>) = turn_inv r"
  "turn_inv (r\<lparr>lastTimestamp := t\<rparr>) = turn_inv r"
  "turn_inv (r\<lparr>storedMessages := sm\<rparr>) = turn_inv r"
  "turn_inv (r\<lparr>aiHost := b\<rparr>) = turn_inv r"
  "turn_inv (r\<lparr>broken := bs\<rparr>) = turn_inv r"
  "turn_inv (r\<lparr>nextSocket := k\<rparr>) = turn_inv r"
  "turn_inv (r\<lparr>pendingConfirmations := pc\<rparr>) = turn_inv r"
  by (simp_all add: turn_inv_def)























subsection \<open>Where the participant list changes\<close>



















subsection \<open>Snapshot round trip\<close>







subsection \<open>The confirmation handshake\<close>










lemma effects_broadcast_all_prefix: "\<exists>rest. effects (broadcast_all ms r) = effects r @ rest"
proof (induction ms r rule: broadcast_all.induct)
  case (1 r)
  show ?case by (simp add: broadcast_all.simps)
next
  case (2 m ms r)
  then obtain rest where
    "effects (broadcast_all (quit_notices (snd (broadcast_pass m r)) @ ms) (fst (broadcast_pass m r)))
       = effects (fst (broadcast_pass m r)) @ rest"
    by blast
  then show ?case by (simp add: broadcast_all.simps broadcast_pass_def Let_def)
qed

lemma effects_broadcast: "\<exists>rest. effects (broadcast m r) = effects r @ Broadcast m # rest"
proof -
  obtain rest where
    "effects (broadcast_all (quit_notices (snd (broadcast_pass m r)) @ []) (fst (broadcast_pass m r)))
       = effects (fst (broadcast_pass m r)) @ rest"
    using effects_broadcast_all_prefix by blast
  then show ?thesis by (simp add: broadcast_def broadcast_all.simps broadcast_pass_def Let_def)
qed

text \<open>
  C3, as the code has it. An acceptance from a user who is already in the confirmed
  set of the open ticket is ignored: the coordinator is left exactly as it was,
  effects included. Any reply for an initiator name that has no open ticket is
  ignored in the same way; that covers every reply after a decline, since a decline
  leaves no ticket open. But a decline for an open ticket is never ignored, whoever
  sends it and whatever that user replied before: it is broadcast and the ticket is
  discarded.
\<close>

theorem C3_repeated_reply:
  "(map_of (pendingConfirmations r) initiator = Some t \<and> user \<in> set (confirmedUsers t) \<longrightarrow>
      handleTurtleSoupConfirmation initiator user True now r = r)
   \<and> (map_of (pendingConfirmations r) initiator = None \<longrightarrow>
      handleTurtleSoupConfirmation initiator user confirmed now r = r)
   \<and> map_of (pendingConfirmations (handleTurtleSoupConfirmation initiator user False now r)) initiator
       = None
   \<and> (map_of (pendingConfirmations r) initiator = Some t \<longrightarrow>
      Broadcast (Confirm initiator False user)
        \<in> set (effects (handleTurtleSoupConfirmation initiator user False now r)))"
proof -
  have "Broadcast (Confirm initiator False user) \<in> set (effects (broadcast (Confirm initiator False user) r'))"
    for r'
    using effects_broadcast [of "Confirm initiator False user" r'] by auto
  then show ?thesis
    by (auto simp add: handleTurtleSoupConfirmation_def delete_conv' split: option.splits)
qed

text \<open>C3 at work: bob has accepted alice's request, carol has not replied yet; a second
  acceptance from bob leaves the coordinator as it was.\<close>

theorem C3_witness:
  "map_of (pendingConfirmations (run three_players_bob_accepted newRoom)) ''alice''
     = Some \<lparr>confirmedUsers = [''bob''], originalParticipants = [''alice'', ''bob'', ''carol'']\<rparr>
   \<and> ''bob'' \<in> set [''bob'']
   \<and> handleTurtleSoupConfirmation ''alice'' ''bob'' True 1000 (run three_players_bob_accepted newRoom)
     = run three_players_bob_accepted newRoom"
proof -
  have tk: "map_of (pendingConfirmations (run three_players_bob_accepted newRoom)) ''alice''
     = Some \<lparr>confirmedUsers = [''bob''], originalParticipants = [''alice'', ''bob'', ''carol'']\<rparr>"
    by code_simp
  show ?thesis
    using C3_repeated_reply [of "run three_players_bob_accepted newRoom" "''alice''"
        "\<lparr>confirmedUsers = [''bob''], originalParticipants = [''alice'', ''bob'', ''carol'']\<rparr>"
        "''bob''" 1000] tk
    by simp
qed

text \<open>
  C3 as stated fails for a decline that follows the same user's acceptance. bob has
  accepted alice's request; bob then declines it. The second reply is not ignored:
  the ticket is discarded and the cancellation is broadcast.
\<close>

theorem C3_counterexample:
  "map_of (pendingConfirmations (run three_players_bob_accepted newRoom)) ''alice''
     = Some \<lparr>confirmedUsers = [''bob''], originalParticipants = [''alice'', ''bob'', ''carol'']\<rparr>
   \<and> map_of (pendingConfirmations
         (run (three_players_bob_accepted
               @ [Message 1 sample_env (special_message (TurtleSoupConfirm ''alice'' ''bob'' False))])
            newRoom)) ''alice''
     = None
   \<and> effects
       (run (three_players_bob_accepted
             @ [Message 1 sample_env (special_message (TurtleSoupConfirm ''alice'' ''bob'' False))])
          newRoom)
     = effects (run three_players_bob_accepted newRoom)
       @ [Broadcast (Confirm ''alice'' False ''bob''), Send 0 (Confirm ''alice'' False ''bob''),
          Send 1 (Confirm ''alice'' False ''bob''), Send 2 (Confirm ''alice'' False ''bob'')]"
  by code_simp

subsection \<open>A turn text from a player whose turn it is not\<close>

text \<open>
  C1, evaluated on the code. alice and bob play, without the AI overlay, and it is
  alice's turn. bob sends a turn text. The turn index and the scores stay as they
  are, but the text is not dropped: \<open>handleTurtleSoupMessage\<close> returns early and
  \<open>handleChatMessage\<close> goes on to broadcast the message to both players and to
  write it to the message log.
\<close>

theorem C1_out_of_turn_text_is_broadcast:
  "turtleSoupActive (game (run two_player_game newRoom))
   \<and> \<not> aiHostActive (game (run two_player_game newRoom))
   \<and> at_index (turtleSoupParticipants (game (run two_player_game newRoom)))
        (currentTurnIndex (game (run two_player_game newRoom))) = Some ''alice''
   \<and> effects (run (two_player_game @ [Message 1 sample_env (turn_text ''is it?'')]) newRoom)
     = effects (run two_player_game newRoom)
       @ [Broadcast (Chat bob_question), Send 0 (Chat bob_question), Send 1 (Chat bob_question),
          StoragePut 1000 bob_question]
   \<and> storedMessages (run (two_player_game @ [Message 1 sample_env (turn_text ''is it?'')]) newRoom)
     = [(1000, bob_question)]
   \<and> currentTurnIndex
       (game (run (two_player_game @ [Message 1 sample_env (turn_text ''is it?'')]) newRoom)) = 0
   \<and> userScores (game (run (two_player_game @ [Message 1 sample_env (turn_text ''is it?'')]) newRoom))
     = userScores (game (run two_player_game newRoom))"
  by code_simp

subsection \<open>A turn that is broadcast and not persisted\<close>

text \<open>
  C4, evaluated on the code. alice and bob play, without the AI overlay; alice takes
  her turn and the two timers of \<open>scheduleAIResponse\<close> fire. The turn index is now
  1 and the turn change has been broadcast with the new scores, but no snapshot was
  written on the way: the stored snapshot is still the one of the game start, with
  turn index 0 and scores of zero.
\<close>

theorem C4_turn_change_without_snapshot:
  "effects (run (two_player_game
        @ [Message 0 sample_env (turn_text ''is it?''), TimerFires 1 2000, TimerFires 1 3000])
      newRoom)
     = effects (run two_player_game newRoom)
       @ [Broadcast (Chat alice_question), Send 0 (Chat alice_question),
          Send 1 (Chat alice_question), StoragePut 1000 alice_question,
          Broadcast (HostReply \<lparr>la_answer = 0, la_score = 5, la_quality = Fair\<rparr> 2000),
          Send 0 (HostReply \<lparr>la_answer = 0, la_score = 5, la_quality = Fair\<rparr> 2000),
          Send 1 (HostReply \<lparr>la_answer = 0, la_score = 5, la_quality = Fair\<rparr> 2000),
          Broadcast (TurnChange 1 (Some ''bob'')
            (Some [(''alice'', \<lparr>us_totalScore = 5, us_questionCount = 1\<rparr>),
                   (''bob'', \<lparr>us_totalScore = 0, us_questionCount = 0\<rparr>)])),
          Send 0 (TurnChange 1 (Some ''bob'')
            (Some [(''alice'', \<lparr>us_totalScore = 5, us_questionCount = 1\<rparr>),
                   (''bob'', \<lparr>us_totalScore = 0, us_questionCount = 0\<rparr>)])),
          Send 1 (TurnChange 1 (Some ''bob'')
            (Some [(''alice'', \<lparr>us_totalScore = 5, us_questionCount = 1\<rparr>),
                   (''bob'', \<lparr>us_totalScore = 0, us_questionCount = 0\<rparr>)]))]
   \<and> currentTurnIndex
       (game (run (two_player_game
          @ [Message 0 sample_env (turn_text ''is it?''), TimerFires 1 2000, TimerFires 1 3000])
        newRoom)) = 1
   \<and> map_option (\<lambda>s. currentTurnIndex (snap_game s))
       (storedGameState (run (two_player_game
          @ [Message 0 sample_env (turn_text ''is it?''), TimerFires 1 2000, TimerFires 1 3000])
        newRoom)) = Some 0"
  by code_simp

subsection \<open>Nothing is sent to a session before its identity claim\<close>

lemma sent_on_append [simp]: "sent_on w (es @ fs) = sent_on w es @ sent_on w fs"
  by (induction w es rule: sent_on.induct) simp_all

lemma received_simps [simp]:
  "received (r\<lparr>effects := es\<rparr>) w = sent_on w es"
  "received (r\<lparr>sessions := ss\<rparr>) w = received r w"
  "received (r\<lparr>game := g\<rparr>) w = received r w"
  "received (r\<lparr>pendingConfirmations := pc\<rparr>) w = received r w"
  "received (r\<lparr>aiHost := b\<rparr>) w = received r w"
  "received (r\<lparr>storedGameState := sg\<rparr>) w = received r w"
  "received (r\<lparr>storedMessages := sm\<rparr>) w = received r w"
  "received (r\<lparr>timers := ts\<rparr>) w = received r w"
  "received (r\<lparr>lastTimestamp := t\<rparr>) w = received r w"
  "received (r\<lparr>nextSocket := k\<rparr>) w = received r w"
  "received (r\<lparr>broken := bs\<rparr>) w = received r w"
  by (simp_all add: received_def)


lemma calm_trans:
  assumes "calm A r r'" and "calm A r' r''"
  shows "calm A r r''"
  unfolding calm_def
proof (intro conjI allI)
  show "nextSocket r'' = nextSocket r" using assms by (simp add: calm_def)
  show "\<forall>(w, s') \<in> set (sessions r''). \<exists>s. (w, s) \<in> set (sessions r) \<and> name s = name s'"
    using assms by (fastforce simp add: calm_def)
  show "distinct (map fst (sessions r)) \<longrightarrow> distinct (map fst (sessions r''))"
    using assms by (simp add: calm_def)
  fix w
  show "w \<in> A \<or> (\<exists>s. (w, s) \<in> set (sessions r) \<and> named s) \<or> received r'' w = received r w"
  proof (cases "w \<in> A \<or> (\<exists>s. (w, s) \<in> set (sessions r) \<and> named s)")
    case True
    then show ?thesis by blast
  next
    case False
    then have a: "received r' w = received r w" using assms(1) by (auto simp add: calm_def)
    have "\<not> (\<exists>s. (w, s) \<in> set (sessions r') \<and> named s)"
    proof
      assume "\<exists>s. (w, s) \<in> set (sessions r') \<and> named s"
      then obtain s' where s': "(w, s') \<in> set (sessions r')" "named s'" by blast
      then obtain s where "(w, s) \<in> set (sessions r)" "name s = name s'"
        using assms(1) by (fastforce simp add: calm_def)
      then show False using False s'(2) by (auto simp add: named_def)
    qed
    then have "received r'' w = received r' w" using assms(2) False by (auto simp add: calm_def)
    then show ?thesis using a by simp
  qed
qed

lemma calm_other_fields [simp]:
  "calm A r (r'\<lparr>game := g\<rparr>) = calm A r r'"
  "calm A r (r'\<lparr>pendingConfirmations := pc\<rparr>) = calm A r r'"
  "calm A r (r'\<lparr>aiHost := b\<rparr>) = calm A r r'"
  "calm A r (r'\<lparr>storedGameState := sg\<rparr>) = calm A r r'"
  "calm A r (r'\<lparr>storedMessages := sm\<rparr>) = calm A r r'"
  "calm A r (r'\<lparr>timers := ts\<rparr>) = calm A r r'"
  "calm A r (r'\<lparr>lastTimestamp := t\<rparr>) = calm A r r'"
  "calm A r (r'\<lparr>broken := bs\<rparr>) = calm A r r'"
  by (simp_all add: calm_def)

lemma calm_step:
  assumes "calm A r r'" and "calm A r' r''"
  shows "calm A r r''"
  using assms by (rule calm_trans)






















































subsection \<open>An identity claim that is too long\<close>

text \<open>
  C8, evaluated on the code. A fresh connection claims a name of 33 characters. The
  claim is not rejected and the socket is not closed: \<open>safeString\<close> has cut the name
  to its first 32 characters before the length guard reads it, so the guard never
  fires; the session is registered under the truncated name, the join is announced
  and \<open>ready\<close> is sent.
\<close>

theorem C8_long_name_registered_truncated:
  "sessions (run [Connect, Message 0 sample_env (identity_claim (replicate 33 CHR ''a''))] newRoom)
     = [(0, \<lparr>name = Some (replicate 32 CHR ''a''), blockedMessages = []\<rparr>)]
   \<and> effects (run [Connect, Message 0 sample_env (identity_claim (replicate 33 CHR ''a''))] newRoom)
     = [Broadcast (Joined (replicate 32 CHR ''a'')), Send 0 (Joined (replicate 32 CHR ''a'')),
        Send 0 Ready]"
  by code_simp

subsection \<open>Turns, in both modes\<close>

lemma out_of_turn_keeps_game:
  assumes "at_index (turtleSoupParticipants (game r)) (currentTurnIndex (game r)) \<noteq> Some n"
  shows "handleTurtleSoupMessage n c e r = r" and "handleTurtleSoupAIMessage n c e r = r"
  using assms by (simp_all add: handleTurtleSoupMessage_def handleTurtleSoupAIMessage_def)

lemma accepted_turn_advances:
  assumes "at_index (turtleSoupParticipants (game r)) (currentTurnIndex (game r)) = Some n"
  shows "currentTurnIndex (game (handleTurtleSoupMessage n c e r))
           = (currentTurnIndex (game r) + 1) mod int (length (turtleSoupParticipants (game r)))"
    and "currentTurnIndex (game (handleTurtleSoupAIMessage n c e r))
           = (currentTurnIndex (game r) + 1) mod int (length (turtleSoupParticipants (game r)))"
  using assms
  by (simp_all add: handleTurtleSoupMessage_def handleTurtleSoupAIMessage_def Let_def
      updateUserScore_def processAIHostQuestion_def endAIHostMode_def split: ai_outcome.splits)

end
